theory Spec2Isabelle
  imports Main "HOL-Library.Sublist" "HOL-Library.AList"
begin

section \<open>JavaScript values\<close>

text \<open>
  The drivers are JavaScript. The values they handle are modelled by one datatype.
  Numbers are integers (the lengths, defaults and counts of a column specification);
  \<open>NaN\<close>, fractions and numbers that JavaScript prints with an exponent (from
  \<open>10^21\<close> on) are outside the model. \<open>JRef a\<close> is a plain object, stored at
  address \<open>a\<close> of the heap; \<open>JError m\<close> is an \<^verbatim>\<open>Error\<close> object with message
  \<open>m\<close> (always truthy, never compared by identity in the drivers).
\<close>

datatype jsval =
    JUndefined
  | JNull
  | JBool bool
  | JNum int
  | JStr string
  | JRef nat
  | JError string

text \<open>What a \<^verbatim>\<open>throw\<close> leaves the function with.\<close>

datatype js_exn = TypeError string | Thrown jsval

text \<open>\<^verbatim>\<open>ToBoolean\<close>: the test of \<^verbatim>\<open>if (v)\<close>, \<^verbatim>\<open>v && w\<close>, \<^verbatim>\<open>v || w\<close>.\<close>

fun truthy :: "jsval \<Rightarrow> bool" where
  "truthy JUndefined = False"
| "truthy JNull = False"
| "truthy (JBool b) = b"
| "truthy (JNum n) = (n \<noteq> 0)"
| "truthy (JStr s) = (s \<noteq> [])"
| "truthy (JRef a) = True"
| "truthy (JError m) = True"

subsection \<open>Numbers and strings\<close>

text \<open>The single quote and the double quote, as one-character strings.\<close>

definition sq :: string where
  "sq = [CHR 0x27]"

definition dq :: string where
  "dq = [CHR 0x22]"

definition digit_char :: "nat \<Rightarrow> char" where
  "digit_char d = ''0123456789'' ! d"

fun show_nat :: "nat \<Rightarrow> string" where
  "show_nat n = (if n < 10 then [digit_char n] else show_nat (n div 10) @ [digit_char (n mod 10)])"

declare show_nat.simps [simp del]

definition show_int :: "int \<Rightarrow> string" where
  "show_int i = (if i < 0 then CHR ''-'' # show_nat (nat (- i)) else show_nat (nat i))"

text \<open>\<^verbatim>\<open>String(v)\<close>, as \<^verbatim>\<open>util.format('%s', v)\<close> and string concatenation apply it.\<close>

fun to_string :: "jsval \<Rightarrow> string" where
  "to_string JUndefined = ''undefined''"
| "to_string JNull = ''null''"
| "to_string (JBool b) = (if b then ''true'' else ''false'')"
| "to_string (JNum n) = show_int n"
| "to_string (JStr s) = s"
| "to_string (JRef a) = ''[object Object]''"
| "to_string (JError m) = ''Error: '' @ m"

text \<open>
  \<^verbatim>\<open>Array.prototype.join\<close>: \<^verbatim>\<open>undefined\<close> and \<^verbatim>\<open>null\<close> elements are
  rendered as the empty string, every other element by \<^verbatim>\<open>String\<close>.
\<close>

fun join_elem :: "jsval \<Rightarrow> string" where
  "join_elem JUndefined = []"
| "join_elem JNull = []"
| "join_elem v = to_string v"

fun join_strings :: "string \<Rightarrow> string list \<Rightarrow> string" where
  "join_strings sep [] = []"
| "join_strings sep [x] = x"
| "join_strings sep (x # y # ys) = x @ sep @ join_strings sep (y # ys)"

definition join :: "string \<Rightarrow> jsval list \<Rightarrow> string" where
  "join sep vs = join_strings sep (map join_elem vs)"

text \<open>
  \<^verbatim>\<open>parseInt(v, 10)\<close>: \<^verbatim>\<open>String(v)\<close>, leading white space dropped, an optional
  sign, then the longest run of decimal digits. \<open>None\<close> is \<^verbatim>\<open>NaN\<close> (no digit).
  Strings are lists of bytes: of JavaScript's white space only the ASCII characters
  are recognised (see \<open>parseInt_modelled\<close> below).
\<close>

definition is_space :: "char \<Rightarrow> bool" where
  "is_space c = (c \<in> set [CHR '' '', CHR 0x09, CHR 0x0A, CHR 0x0B, CHR 0x0C, CHR 0x0D])"

definition is_digit :: "char \<Rightarrow> bool" where
  "is_digit c = (c \<in> set ''0123456789'')"

definition digit_val :: "char \<Rightarrow> nat" where
  "digit_val c = of_char c - (48::nat)"

fun parse_digits :: "nat \<Rightarrow> string \<Rightarrow> nat" where
  "parse_digits acc [] = acc"
| "parse_digits acc (c # cs) = (if is_digit c then parse_digits (10 * acc + digit_val c) cs else acc)"

definition parse_unsigned :: "string \<Rightarrow> nat option" where
  "parse_unsigned s = (case s of [] \<Rightarrow> None
     | c # cs \<Rightarrow> if is_digit c then Some (parse_digits 0 s) else None)"

definition parse_signed :: "string \<Rightarrow> int option" where
  "parse_signed s = (case s of
       [] \<Rightarrow> None
     | c # cs \<Rightarrow>
         if c = CHR ''-'' then map_option (\<lambda>n. - int n) (parse_unsigned cs)
         else if c = CHR ''+'' then map_option int (parse_unsigned cs)
         else map_option int (parse_unsigned s))"

definition parseInt :: "jsval \<Rightarrow> int option" where
  "parseInt v = parse_signed (dropWhile is_space (to_string v))"

text \<open>
  Where \<open>parseInt\<close> above is JavaScript's: a number must be below \<open>10^21\<close> in
  magnitude, since from there on \<^verbatim>\<open>String\<close> prints an exponent
  (\<^verbatim>\<open>String(1e21)\<close> is \<^verbatim>\<open>'1e+21'\<close>, of which \<^verbatim>\<open>parseInt\<close> reads 1), and a
  string must consist of ASCII characters, since JavaScript also skips leading white
  space beyond ASCII (U+00A0, U+FEFF and others). Properties of \<open>parseInt\<close> are
  stated for such values only.
\<close>

definition is_ascii :: "char \<Rightarrow> bool" where
  "is_ascii c = ((of_char c :: nat) < 128)"

definition parseInt_modelled :: "jsval \<Rightarrow> bool" where
  "parseInt_modelled v =
     (case v of
        JNum n \<Rightarrow> \<bar>n\<bar> < 10 ^ 21
      | JStr s \<Rightarrow> list_all is_ascii s
      | _ \<Rightarrow> True)"

section \<open>Column specifications\<close>

text \<open>
  A column specification is an object whose fields the drivers read one by one; a field
  that is absent reads as \<^verbatim>\<open>undefined\<close>. The record holds what each read returns.
  (\<open>length_f\<close> and \<open>null_f\<close> are the fields \<^verbatim>\<open>length\<close> and \<^verbatim>\<open>null\<close>.)
\<close>

record ColumnSpec =
  type :: jsval
  length_f :: jsval
  unsigned :: jsval
  primaryKey :: jsval
  autoIncrement :: jsval
  notNull :: jsval
  unique :: jsval
  null_f :: jsval
  defaultValue :: jsval

record ColumnDefOptions =
  emitPrimaryKey :: jsval

text \<open>
  The constants of the module \<^verbatim>\<open>../data_type\<close>, which is not among the sources:
  the drivers only compare \<^verbatim>\<open>spec.type\<close> with them (\<^verbatim>\<open>switch\<close>, strict equality,
  cases tried in order), so the table is a parameter.
\<close>

record data_type =
  STRING :: jsval
  TEXT :: jsval
  INTEGER :: jsval
  DATE_TIME :: jsval
  BLOB :: jsval
  BOOLEAN :: jsval

section \<open>MySQL driver: type mapper and constraint builder\<close>

text \<open>
  \<^verbatim>\<open>len = parseInt(spec.length, 10) || 1000\<close>: \<^verbatim>\<open>NaN\<close> and \<open>0\<close> are both falsy.
\<close>

definition mysql_len :: "ColumnSpec \<Rightarrow> int" where
  "mysql_len spec = (case parseInt (length_f spec) of
       None \<Rightarrow> 1000
     | Some n \<Rightarrow> if n \<noteq> 0 then n else 1000)"

text \<open>
  \<open>super\<close> is \<^verbatim>\<open>this._super\<close>, the base driver's \<^verbatim>\<open>mapDataType\<close> (not among the
  sources).
\<close>

definition mysql_mapDataType ::
  "data_type \<Rightarrow> (ColumnSpec \<Rightarrow> js_exn + string) \<Rightarrow> ColumnSpec \<Rightarrow> js_exn + string" where
  "mysql_mapDataType T super spec =
     (if type spec = TEXT T then
        (let len = mysql_len spec in
         if len > 16777216 then Inr ''LONGTEXT''
         else if len > 65536 then Inr ''MEDIUMTEXT''
         else if len > 256 then Inr ''TEXT''
         else Inr ''TINYTEXT'')
      else if type spec = DATE_TIME T then Inr ''DATETIME''
      else if type spec = BLOB T then
        (let len = mysql_len spec in
         if len > 16777216 then Inr ''LONGBLOB''
         else if len > 65536 then Inr ''MEDIUMBLOB''
         else if len > 256 then Inr ''BLOB''
         else Inr ''TINYBLOB'')
      else if type spec = BOOLEAN T then Inr ''TINYINT(1)''
      else super spec)"

text \<open>
  \<^verbatim>\<open>createColumnConstraint\<close> pushes onto the array \<^verbatim>\<open>constraint\<close>, one
  \<^verbatim>\<open>if\<close> after the other, and joins it with a space. \<open>push\<close> is
  \<^verbatim>\<open>constraint.push(v)\<close>; \<open>run_if\<close> is an \<^verbatim>\<open>if\<close> without \<^verbatim>\<open>else\<close>.
\<close>

definition push :: "jsval \<Rightarrow> jsval list \<Rightarrow> jsval list" where
  "push v arr = arr @ [v]"

definition run_if :: "bool \<Rightarrow> ('a \<Rightarrow> 'a) \<Rightarrow> 'a \<Rightarrow> 'a" where
  "run_if b f x = (if b then f x else x)"

definition mysql_constraint_tokens :: "ColumnSpec \<Rightarrow> ColumnDefOptions \<Rightarrow> jsval list" where
  "mysql_constraint_tokens spec options =
     (let constraint = [];
          constraint = run_if (truthy (unsigned spec)) (push (JStr ''UNSIGNED'')) constraint;
          constraint = run_if (truthy (primaryKey spec) \<and> truthy (emitPrimaryKey options))
             (\<lambda>c. run_if (truthy (autoIncrement spec)) (push (JStr ''AUTO_INCREMENT''))
                    (push (JStr ''PRIMARY KEY'') c)) constraint;
          constraint = run_if (truthy (notNull spec)) (push (JStr ''NOT NULL'')) constraint;
          constraint = run_if (truthy (unique spec)) (push (JStr ''UNIQUE'')) constraint;
          constraint = run_if (truthy (null_f spec)) (push (JStr ''NULL'')) constraint;
          constraint = run_if (truthy (defaultValue spec))
             (\<lambda>c. (case defaultValue spec of
                      JStr s \<Rightarrow> push (JStr (sq @ s @ sq))
                    | v \<Rightarrow> push v) (push (JStr ''DEFAULT'') c)) constraint
      in constraint)"

definition mysql_createColumnConstraint :: "ColumnSpec \<Rightarrow> ColumnDefOptions \<Rightarrow> string" where
  "mysql_createColumnConstraint spec options = join '' '' (mysql_constraint_tokens spec options)"

section \<open>PostgreSQL driver: type mapper and constraint builder\<close>

definition pg_mapDataType ::
  "data_type \<Rightarrow> (ColumnSpec \<Rightarrow> js_exn + string) \<Rightarrow> ColumnSpec \<Rightarrow> js_exn + string" where
  "pg_mapDataType T super spec =
     (if type spec = STRING T then Inr ''VARCHAR''
      else if type spec = DATE_TIME T then Inr ''TIMESTAMP''
      else if type spec = BLOB T then Inr ''BYTEA''
      else super spec)"

text \<open>\<^verbatim>\<open>typeof spec.defaultValue != 'undefined'\<close> holds for every value but \<^verbatim>\<open>undefined\<close>.\<close>

definition pg_constraint_tokens :: "ColumnSpec \<Rightarrow> ColumnDefOptions \<Rightarrow> jsval list" where
  "pg_constraint_tokens spec options =
     (let constraint = [];
          constraint = run_if (truthy (primaryKey spec) \<and> truthy (emitPrimaryKey options))
             (\<lambda>c. push (JStr ''PRIMARY KEY'')
                    (run_if (truthy (autoIncrement spec)) (push (JStr ''SERIAL'')) c)) constraint;
          constraint = run_if (truthy (notNull spec)) (push (JStr ''NOT NULL'')) constraint;
          constraint = run_if (truthy (unique spec)) (push (JStr ''UNIQUE'')) constraint;
          constraint = run_if (defaultValue spec \<noteq> JUndefined)
             (\<lambda>c. (case defaultValue spec of
                      JStr s \<Rightarrow> push (JStr (sq @ s @ sq))
                    | v \<Rightarrow> push v) (push (JStr ''DEFAULT'') c)) constraint
      in constraint)"

definition pg_createColumnConstraint :: "ColumnSpec \<Rightarrow> ColumnDefOptions \<Rightarrow> string" where
  "pg_createColumnConstraint spec options = join '' '' (pg_constraint_tokens spec options)"

section \<open>Strings: formatting, splitting, replacing\<close>

text \<open>
  \<^verbatim>\<open>util.format(f, args...)\<close>. The drivers' templates contain no directive but
  \<^verbatim>\<open>%s\<close>, the only one modelled: each \<^verbatim>\<open>%s\<close> takes the next argument,
  rendered by \<^verbatim>\<open>String\<close>; a \<^verbatim>\<open>%s\<close> without an argument stays; arguments left
  over are appended, each after a space.
\<close>

fun util_format :: "string \<Rightarrow> jsval list \<Rightarrow> string" where
  "util_format [] args = concat (map (\<lambda>a. CHR '' '' # to_string a) args)"
| "util_format [c] args = c # concat (map (\<lambda>a. CHR '' '' # to_string a) args)"
| "util_format (c # d # fs) args =
     (if c = CHR ''%'' \<and> d = CHR ''s'' then
        (case args of
           [] \<Rightarrow> c # d # util_format fs []
         | a # rest \<Rightarrow> to_string a @ util_format fs rest)
      else c # util_format (d # fs) args)"

text \<open>\<^verbatim>\<open>s.split(c)\<close> for a one-character separator: never the empty array.\<close>

fun split :: "char \<Rightarrow> string \<Rightarrow> string list" where
  "split sep [] = [[]]"
| "split sep (c # cs) =
     (if c = sep then [] # split sep cs
      else (case split sep cs of
              [] \<Rightarrow> [[c]]
            | p # ps \<Rightarrow> (c # p) # ps))"

text \<open>
  \<^verbatim>\<open>s.replace(c, r)\<close> with a string pattern of one character: JavaScript replaces
  the first occurrence only.
\<close>

fun replace_first :: "char \<Rightarrow> string \<Rightarrow> string \<Rightarrow> string" where
  "replace_first pat r [] = []"
| "replace_first pat r (c # cs) = (if c = pat then r @ cs else c # replace_first pat r cs)"

text \<open>\<^verbatim>\<open>s.replace(/\[|\]/g, "\"")\<close> (PostgreSQL) and \<^verbatim>\<open>s.replace(/\[|\]/g, "")\<close> (MySQL).\<close>

definition is_bracket :: "char \<Rightarrow> bool" where
  "is_bracket c = (c = CHR ''['' \<or> c = CHR '']'')"

definition brackets_to_quotes :: "string \<Rightarrow> string" where
  "brackets_to_quotes s = map (\<lambda>c. if is_bracket c then CHR 0x22 else c) s"

definition strip_brackets :: "string \<Rightarrow> string" where
  "strip_brackets s = filter (\<lambda>c. \<not> is_bracket c) s"

text \<open>
  The placeholder loop of the PostgreSQL \<^verbatim>\<open>runSql\<close>:
  \<^verbatim>\<open>for (i = 0; i < param.length-1; i++) new_param.push(param[i], "$" + (i+1));\<close>
  then \<^verbatim>\<open>new_param.push(param[param.length-1])\<close>. \<open>number_pieces i\<close> is the loop
  from index \<open>i\<close> on, over the pieces that are left.
\<close>

fun number_pieces :: "nat \<Rightarrow> string list \<Rightarrow> string list" where
  "number_pieces i [] = []"
| "number_pieces i [p] = [p]"
| "number_pieces i (p # p' # ps) = p # (CHR ''$'' # show_nat (i + 1)) # number_pieces (i + 1) (p' # ps)"

definition number_placeholders :: "string \<Rightarrow> string" where
  "number_placeholders sql = concat (number_pieces 0 (split CHR ''?'' sql))"

text \<open>
  The statement text that the PostgreSQL \<^verbatim>\<open>runSql\<close> hands on, from its first
  argument and the number of arguments between the statement and the callback
  (\<^verbatim>\<open>params.length > 2\<close> counts the statement and the callback).
\<close>

definition pg_statement :: "string \<Rightarrow> nat \<Rightarrow> string" where
  "pg_statement sql nparams =
     brackets_to_quotes (if nparams + 2 > 2 then number_placeholders sql else sql)"

text \<open>
  What the claim about placeholders describes, read off its words: going through the
  template from the left, the \<open>k\<close>-th \<^verbatim>\<open>?\<close> becomes \<^verbatim>\<open>$k\<close> and every other
  character stays.
\<close>

fun spec_placeholders :: "nat \<Rightarrow> string \<Rightarrow> string" where
  "spec_placeholders k [] = []"
| "spec_placeholders k (c # cs) =
     (if c = CHR ''?'' then CHR ''$'' # show_nat k @ spec_placeholders (Suc k) cs
      else c # spec_placeholders k cs)"

section \<open>The connection, the callbacks and the execution gateway\<close>

text \<open>
  A driver owns one connection and hands statements to its \<^verbatim>\<open>query\<close> primitive,
  which answers through a callback \<^verbatim>\<open>(err, result)\<close>. The client library behind the
  connection is not part of the repository: its state is a type parameter \<open>'c\<close> and
  its answer to a statement a function, the parameter \<open>q\<close> of every operation.
  A PostgreSQL result is an object with a field \<^verbatim>\<open>rows\<close>; a MySQL result is the
  array of rows.
\<close>

type_synonym row = "(string \<times> jsval) list"

datatype qresult =
    NoResult
  | PgResult "row list option"
  | RowArray "row list"

text \<open>An argument between the statement and the callback: a value or an array of values.\<close>

datatype param = PVal jsval | PArr "jsval list"

text \<open>
  The world an operation runs in: the backend behind the connection, the process-wide
  flag \<^verbatim>\<open>global.dryRun\<close>, the statements handed to \<^verbatim>\<open>connection.query\<close> so far,
  the statements handed to \<^verbatim>\<open>log.sql\<close> so far, the invocations of the caller's
  callback so far (see \<open>notify\<close>), and the heap of objects.
\<close>

type_synonym jsobj = "(string \<times> jsval) list"

record 'c world =
  conn :: 'c
  dryRun :: bool
  dispatched :: "(string \<times> param list) list"
  logged :: "(string \<times> param list) list"
  calls :: "(jsval \<times> qresult) list"
  heap :: "jsobj list"

type_synonym 'c proc = "'c world \<Rightarrow> js_exn + 'c world"

type_synonym 'c callback = "jsval \<Rightarrow> qresult \<Rightarrow> 'c proc"

type_synonym 'c query = "'c \<Rightarrow> string \<Rightarrow> param list \<Rightarrow> (jsval \<times> qresult) \<times> 'c"

text \<open>An argument of a call, where the code inspects \<^verbatim>\<open>typeof\<close>: a value or a function.\<close>

datatype 'c arg = Val jsval | Fn "'c callback"

text \<open>Sequencing of steps that may throw.\<close>

definition js_bind :: "js_exn + 'a \<Rightarrow> ('a \<Rightarrow> js_exn + 'b) \<Rightarrow> js_exn + 'b" where
  "js_bind m f = (case m of Inl e \<Rightarrow> Inl e | Inr x \<Rightarrow> f x)"

text \<open>\<^verbatim>\<open>callback(err, result)\<close>: calling what is not a function throws.\<close>

definition invoke :: "'c arg \<Rightarrow> 'c callback" where
  "invoke callback err result w =
     (case callback of
        Fn f \<Rightarrow> f err result w
      | Val v \<Rightarrow> Inl (TypeError ''callback is not a function''))"

text \<open>
  The caller's callback, as far as the properties below need it: it records the
  arguments it is invoked with.
\<close>

definition notify :: "'c callback" where
  "notify err result w = Inr (w\<lparr>calls := calls w @ [(err, result)]\<rparr>)"

text \<open>
  \<^verbatim>\<open>this.connection.query.apply(this.connection, arguments)\<close>: the statement reaches
  the connection, and the connection answers the callback, if it was given one.
\<close>

definition dispatch :: "'c query \<Rightarrow> string \<Rightarrow> param list \<Rightarrow> 'c arg \<Rightarrow> 'c proc" where
  "dispatch q sql params callback w =
     (case q (conn w) sql params of
        ((err, result), c') \<Rightarrow>
          (let w' = w\<lparr>conn := c', dispatched := dispatched w @ [(sql, params)]\<rparr>
           in case callback of
                Fn f \<Rightarrow> f err result w'
              | Val v \<Rightarrow> Inr w'))"

definition log_sql :: "string \<Rightarrow> param list \<Rightarrow> 'c world \<Rightarrow> 'c world" where
  "log_sql sql params w = w\<lparr>logged := logged w @ [(sql, params)]\<rparr>"

text \<open>
  \<^verbatim>\<open>runSql\<close> reads \<^verbatim>\<open>arguments\<close>: the statement first, the callback last, the
  parameters between them. The drivers always pass a string first.
\<close>

definition mysql_runSql :: "'c query \<Rightarrow> string \<Rightarrow> param list \<Rightarrow> 'c arg \<Rightarrow> 'c proc" where
  "mysql_runSql q sql params callback w =
     (let sql' = strip_brackets sql;
          w' = log_sql sql' params w
      in if dryRun w' then invoke callback JUndefined NoResult w'
         else dispatch q sql' params callback w')"

definition mysql_all :: "'c query \<Rightarrow> string \<Rightarrow> param list \<Rightarrow> 'c arg \<Rightarrow> 'c proc" where
  "mysql_all q sql params callback w = dispatch q (strip_brackets sql) params callback w"

definition pg_runSql :: "'c query \<Rightarrow> string \<Rightarrow> param list \<Rightarrow> 'c arg \<Rightarrow> 'c proc" where
  "pg_runSql q sql params callback w =
     (let sql' = pg_statement sql (length params);
          w' = log_sql sql' params w
      in if dryRun w' then invoke callback JUndefined NoResult w'
         else dispatch q sql' params callback w')"

text \<open>
  The PostgreSQL \<^verbatim>\<open>all\<close> hands the connection the statement and a function of its
  own, which reads \<^verbatim>\<open>result.rows\<close> and calls \<^verbatim>\<open>params[1]\<close>, the second
  argument of \<^verbatim>\<open>all\<close>.
\<close>

definition result_rows :: "qresult \<Rightarrow> js_exn + row list option" where
  "result_rows result =
     (case result of
        NoResult \<Rightarrow> Inl (TypeError ''Cannot read property rows of undefined'')
      | PgResult rows \<Rightarrow> Inr rows
      | RowArray rs \<Rightarrow> Inr None)"

definition rows_value :: "row list option \<Rightarrow> qresult" where
  "rows_value rows = (case rows of None \<Rightarrow> NoResult | Some rs \<Rightarrow> RowArray rs)"

definition pg_all :: "'c query \<Rightarrow> string \<Rightarrow> 'c arg \<Rightarrow> 'c proc" where
  "pg_all q sql second w =
     dispatch q (brackets_to_quotes sql) []
       (Fn (\<lambda>err result w'. js_bind (result_rows result)
              (\<lambda>rows. invoke second err (rows_value rows) w'))) w"

section \<open>PostgreSQL driver: changeColumn and insert\<close>

text \<open>
  \<^verbatim>\<open>changeColumn\<close> chains three local functions through the callbacks of
  \<^verbatim>\<open>runSql\<close>: \<^verbatim>\<open>setNotNull\<close>, \<^verbatim>\<open>setUnique\<close>, \<^verbatim>\<open>setDefaultValue\<close>. They are
  defined here last first. \<^verbatim>\<open>callback(err)\<close> passes one argument: the second reads
  as \<^verbatim>\<open>undefined\<close>.
\<close>

definition setDefaultValue ::
  "'c query \<Rightarrow> string \<Rightarrow> string \<Rightarrow> ColumnSpec \<Rightarrow> 'c arg \<Rightarrow> 'c callback" where
  "setDefaultValue q tableName columnName columnSpec callback err result w =
     (if truthy err then invoke callback err NoResult w
      else
        (let sql =
           (if defaultValue columnSpec \<noteq> JUndefined then
              (let defaultValue' =
                 (case defaultValue columnSpec of
                    JStr s \<Rightarrow> JStr (sq @ s @ sq)
                  | v \<Rightarrow> v)
               in util_format
                    (''ALTER TABLE '' @ dq @ ''%s'' @ dq @ '' ALTER COLUMN '' @ dq @ ''%s'' @ dq
                       @ '' SET DEFAULT %s'')
                    [JStr tableName, JStr columnName, defaultValue'])
            else util_format
                   (''ALTER TABLE '' @ dq @ ''%s'' @ dq @ '' ALTER COLUMN '' @ dq @ ''%s'' @ dq
                      @ '' DROP DEFAULT'')
                   [JStr tableName, JStr columnName])
         in pg_runSql q sql [] callback w))"

text \<open>
  In \<^verbatim>\<open>setUnique\<close> the test \<^verbatim>\<open>if (err) { callback(err); }\<close> has no
  \<^verbatim>\<open>return\<close>: the function goes on after the callback has returned.
\<close>

definition setUnique ::
  "'c query \<Rightarrow> string \<Rightarrow> string \<Rightarrow> ColumnSpec \<Rightarrow> 'c arg \<Rightarrow> 'c callback" where
  "setUnique q tableName columnName columnSpec callback err result w =
     js_bind (if truthy err then invoke callback err NoResult w else Inr w)
       (\<lambda>w.
          (let constraintName = tableName @ ''_'' @ columnName @ ''_unique''
           in if unique columnSpec = JBool True then
                pg_runSql q
                  (util_format
                     (''ALTER TABLE '' @ dq @ ''%s'' @ dq @ '' ADD CONSTRAINT %s UNIQUE ('' @ dq
                        @ ''%s'' @ dq @ '')'')
                     [JStr tableName, JStr constraintName, JStr columnName])
                  [] (Fn (setDefaultValue q tableName columnName columnSpec callback)) w
              else if unique columnSpec = JBool False then
                pg_runSql q
                  (util_format (''ALTER TABLE '' @ dq @ ''%s'' @ dq @ '' DROP CONSTRAINT %s'')
                     [JStr tableName, JStr constraintName])
                  [] (Fn (setDefaultValue q tableName columnName columnSpec callback)) w
              else setDefaultValue q tableName columnName columnSpec callback
                     JUndefined NoResult w))"

definition setNotNull ::
  "'c query \<Rightarrow> string \<Rightarrow> string \<Rightarrow> ColumnSpec \<Rightarrow> 'c arg \<Rightarrow> 'c proc" where
  "setNotNull q tableName columnName columnSpec callback w =
     (let setOrDrop = (if notNull columnSpec = JBool True then ''SET'' else ''DROP'');
          sql = util_format
                  (''ALTER TABLE '' @ dq @ ''%s'' @ dq @ '' ALTER COLUMN '' @ dq @ ''%s'' @ dq
                     @ '' %s NOT NULL'')
                  [JStr tableName, JStr columnName, JStr setOrDrop]
      in pg_runSql q sql [] (Fn (setUnique q tableName columnName columnSpec callback)) w)"

definition pg_changeColumn ::
  "'c query \<Rightarrow> string \<Rightarrow> string \<Rightarrow> ColumnSpec \<Rightarrow> 'c arg \<Rightarrow> 'c proc" where
  "pg_changeColumn q tableName columnName columnSpec callback w =
     setNotNull q tableName columnName columnSpec callback w"

text \<open>
  \<^verbatim>\<open>insert\<close>: the loop \<^verbatim>\<open>for (var index in columnNameArray)\<close> visits the indices
  of the array in order; \<open>insert_loop n index\<close> is the loop from \<open>index\<close> on, over the
  columns and values that are left, with \<open>n = columnNameArray.length\<close>; the pair is
  \<^verbatim>\<open>(columnNames, values)\<close>.
\<close>

definition insert_value :: "jsval \<Rightarrow> string" where
  "insert_value v =
     (case v of
        JStr s \<Rightarrow> sq @ replace_first (CHR 0x27) (sq @ sq) s @ sq
      | _ \<Rightarrow> to_string v)"

fun insert_loop :: "nat \<Rightarrow> nat \<Rightarrow> (jsval \<times> jsval) list \<Rightarrow> string \<times> string \<Rightarrow> string \<times> string" where
  "insert_loop n index [] (columnNames, values) = (columnNames, values)"
| "insert_loop n index ((name, v) # rest) (columnNames, values) =
     (let columnNames = columnNames @ (dq @ to_string name @ dq);
          values = values @ insert_value v;
          columnNames = (if int index \<noteq> int n - 1 then columnNames @ '','' else columnNames);
          values = (if int index \<noteq> int n - 1 then values @ '','' else values)
      in insert_loop n (Suc index) rest (columnNames, values))"

definition insert_sql :: "string \<Rightarrow> jsval list \<Rightarrow> jsval list \<Rightarrow> string" where
  "insert_sql tableName columnNameArray valueArray =
     (let sql = util_format (''INSERT INTO '' @ dq @ ''%s'' @ dq @ '' '') [JStr tableName]
      in case insert_loop (length columnNameArray) 0 (zip columnNameArray valueArray)
                (''('', ''VALUES ('') of
           (columnNames, values) \<Rightarrow> sql @ columnNames @ '') '' @ values @ '');'')"

definition pg_insert ::
  "'c query \<Rightarrow> string \<Rightarrow> jsval list \<Rightarrow> jsval list \<Rightarrow> 'c arg \<Rightarrow> 'c proc" where
  "pg_insert q tableName columnNameArray valueArray callback w =
     (if length columnNameArray \<noteq> length valueArray then
        invoke callback
          (JError ''The number of columns does not match the number of values.'') NoResult w
      else pg_runSql q (insert_sql tableName columnNameArray valueArray) [] callback w)"

section \<open>MySQL driver: removeIndex\<close>

text \<open>
  \<^verbatim>\<open>removeIndex\<close> inspects \<^verbatim>\<open>arguments\<close>. A formal parameter beyond the
  arguments given reads as \<^verbatim>\<open>undefined\<close>. \<^verbatim>\<open>process.nextTick(f)\<close> runs \<open>f\<close>
  after the current call has returned: the operation returns the world it leaves and
  the functions it has scheduled, which \<open>run_deferred\<close> runs afterwards. (The source
  text that \<^verbatim>\<open>util.format\<close> prints for a function is not modelled.)
\<close>

definition nth_arg :: "'c arg list \<Rightarrow> nat \<Rightarrow> 'c arg" where
  "nth_arg arguments i = (if i < length arguments then arguments ! i else Val JUndefined)"

definition is_function :: "'c arg \<Rightarrow> bool" where
  "is_function a = (case a of Fn f \<Rightarrow> True | Val v \<Rightarrow> False)"

definition arg_value :: "'c arg \<Rightarrow> jsval" where
  "arg_value a = (case a of Val v \<Rightarrow> v | Fn f \<Rightarrow> JStr ''function'')"

definition mysql_removeIndex ::
  "'c query \<Rightarrow> 'c arg list \<Rightarrow> 'c world \<Rightarrow> js_exn + ('c world \<times> 'c proc list)" where
  "mysql_removeIndex q arguments w =
     (let tableName = nth_arg arguments 0;
          indexName = nth_arg arguments 1;
          callback = nth_arg arguments 2
      in if length arguments = 2 \<and> is_function indexName then
           (let callback = indexName
            in Inr (w, [invoke callback
                          (JError (''Illegal arguments, must provide '' @ dq @ ''tableName'' @ dq
                                     @ '' and '' @ dq @ ''indexName'' @ dq)) NoResult]))
         else
           (let sql = util_format ''DROP INDEX %s ON %s'' [arg_value indexName, arg_value tableName]
            in js_bind (mysql_runSql q sql [] callback w) (\<lambda>w'. Inr (w', []))))"

fun run_deferred :: "'c proc list \<Rightarrow> 'c proc" where
  "run_deferred [] w = Inr w"
| "run_deferred (f # fs) w = js_bind (f w) (run_deferred fs)"

section \<open>Objects on the heap\<close>

text \<open>
  \<^verbatim>\<open>createTable\<close> changes the objects it is given, so objects live in a store: the
  heap is the list of the objects allocated so far, \<open>JRef a\<close> is the object at index
  \<open>a\<close>, and an object is the list of its own enumerable properties in the order of
  their creation, which is the order in which \<^verbatim>\<open>for ... in\<close> visits them (keys that
  look like array indices, which JavaScript visits first, are not expected among column
  names). Reading a property of \<^verbatim>\<open>undefined\<close> or \<^verbatim>\<open>null\<close> throws; writing a
  property of a primitive value is ignored; properties stored on an \<^verbatim>\<open>Error\<close>
  object are not modelled.
\<close>

definition obj_get :: "jsobj \<Rightarrow> string \<Rightarrow> jsval" where
  "obj_get obj k = (case map_of obj k of None \<Rightarrow> JUndefined | Some v \<Rightarrow> v)"

definition string_index :: "string \<Rightarrow> string \<Rightarrow> jsval" where
  "string_index s k =
     (case find (\<lambda>i. show_nat i = k) [0..<length s] of
        None \<Rightarrow> JUndefined
      | Some i \<Rightarrow> JStr [s ! i])"

definition get_prop :: "jsobj list \<Rightarrow> jsval \<Rightarrow> string \<Rightarrow> js_exn + jsval" where
  "get_prop h v k =
     (case v of
        JUndefined \<Rightarrow> Inl (TypeError ''Cannot read property of undefined'')
      | JNull \<Rightarrow> Inl (TypeError ''Cannot read property of null'')
      | JRef a \<Rightarrow> Inr (if a < length h then obj_get (h ! a) k else JUndefined)
      | JStr s \<Rightarrow> Inr (if k = ''length'' then JNum (int (length s)) else string_index s k)
      | JError m \<Rightarrow> Inr (if k = ''message'' then JStr m else JUndefined)
      | _ \<Rightarrow> Inr JUndefined)"

definition set_prop :: "jsobj list \<Rightarrow> jsval \<Rightarrow> string \<Rightarrow> jsval \<Rightarrow> js_exn + jsobj list" where
  "set_prop h v k x =
     (case v of
        JUndefined \<Rightarrow> Inl (TypeError ''Cannot set property of undefined'')
      | JNull \<Rightarrow> Inl (TypeError ''Cannot set property of null'')
      | JRef a \<Rightarrow> Inr (if a < length h then h[a := AList.update k x (h ! a)] else h)
      | _ \<Rightarrow> Inr h)"

definition delete_prop :: "jsobj list \<Rightarrow> jsval \<Rightarrow> string \<Rightarrow> js_exn + jsobj list" where
  "delete_prop h v k =
     (case v of
        JUndefined \<Rightarrow> Inl (TypeError ''Cannot convert undefined to object'')
      | JNull \<Rightarrow> Inl (TypeError ''Cannot convert null to object'')
      | JRef a \<Rightarrow> Inr (if a < length h then h[a := AList.delete k (h ! a)] else h)
      | _ \<Rightarrow> Inr h)"

text \<open>The keys that \<^verbatim>\<open>for (var k in v)\<close> visits.\<close>

definition own_keys :: "jsobj list \<Rightarrow> jsval \<Rightarrow> string list" where
  "own_keys h v =
     (case v of
        JRef a \<Rightarrow> (if a < length h then map fst (h ! a) else [])
      | JStr s \<Rightarrow> map show_nat [0..<length s]
      | _ \<Rightarrow> [])"

definition alloc :: "jsobj \<Rightarrow> jsobj list \<Rightarrow> jsval \<times> jsobj list" where
  "alloc obj h = (JRef (length h), h @ [obj])"

text \<open>
  The fields of a column specification, read from the value \<open>v\<close>: \<^verbatim>\<open>spec.type\<close>,
  \<^verbatim>\<open>spec.length\<close> and so on.
\<close>

definition field :: "jsobj list \<Rightarrow> jsval \<Rightarrow> string \<Rightarrow> jsval" where
  "field h v k = (case get_prop h v k of Inl e \<Rightarrow> JUndefined | Inr x \<Rightarrow> x)"

definition read_spec :: "jsobj list \<Rightarrow> jsval \<Rightarrow> js_exn + ColumnSpec" where
  "read_spec h v =
     js_bind (get_prop h v ''autoIncrement'')
       (\<lambda>ai. Inr \<lparr>type = field h v ''type'', length_f = field h v ''length'',
                  unsigned = field h v ''unsigned'', primaryKey = field h v ''primaryKey'',
                  autoIncrement = ai, notNull = field h v ''notNull'',
                  unique = field h v ''unique'', null_f = field h v ''null'',
                  defaultValue = field h v ''defaultValue''\<rparr>)"

section \<open>PostgreSQL driver: createTable and createMigrationsTable\<close>

text \<open>
  What the driver takes from modules that are not among the sources: the constants of
  \<^verbatim>\<open>../data_type\<close>, the base driver's \<^verbatim>\<open>mapDataType\<close> (\<^verbatim>\<open>this._super\<close>) and
  \<^verbatim>\<open>normalizeColumnSpec\<close> (which may allocate the object it returns), and
  \<^verbatim>\<open>semver.gte\<close>.
\<close>

record deps =
  types :: data_type
  base_mapDataType :: "ColumnSpec \<Rightarrow> js_exn + string"
  normalizeColumnSpec :: "jsobj list \<Rightarrow> jsval \<Rightarrow> js_exn + (jsval \<times> jsobj list)"
  semver_gte :: "string \<Rightarrow> string \<Rightarrow> js_exn + bool"

definition pg_createColumnDef ::
  "deps \<Rightarrow> string \<Rightarrow> ColumnSpec \<Rightarrow> ColumnDefOptions \<Rightarrow> js_exn + string" where
  "pg_createColumnDef D name spec options =
     js_bind (if truthy (autoIncrement spec) then Inr []
              else pg_mapDataType (types D) (base_mapDataType D) spec)
       (\<lambda>type'.
          (let len = (if truthy (length_f spec) \<and> type' \<noteq> ''BYTEA'' \<and> type' \<noteq> ''TEXT''
                      then util_format ''(%s)'' [length_f spec] else []);
               constraint = pg_createColumnConstraint spec options
           in Inr (join '' '' [JStr (dq @ name @ dq), JStr type', JStr len, JStr constraint])))"

text \<open>
  The first loop of \<^verbatim>\<open>createTable\<close>, over the keys that are left: it replaces each
  column specification by its normal form and collects the primary-key columns.
\<close>

fun normalize_columns ::
  "deps \<Rightarrow> jsval \<Rightarrow> string list \<Rightarrow> jsobj list \<times> string list \<Rightarrow> js_exn + (jsobj list \<times> string list)" where
  "normalize_columns D columnSpecs [] (h, primaryKeyColumns) = Inr (h, primaryKeyColumns)"
| "normalize_columns D columnSpecs (columnName # rest) (h, primaryKeyColumns) =
     (case get_prop h columnSpecs columnName of
        Inl e \<Rightarrow> Inl e
      | Inr v \<Rightarrow>
     (case normalizeColumnSpec D h v of
        Inl e \<Rightarrow> Inl e
      | Inr (columnSpec, h1) \<Rightarrow>
     (case set_prop h1 columnSpecs columnName columnSpec of
        Inl e \<Rightarrow> Inl e
      | Inr h2 \<Rightarrow>
     (case get_prop h2 columnSpec ''primaryKey'' of
        Inl e \<Rightarrow> Inl e
      | Inr pk \<Rightarrow>
          normalize_columns D columnSpecs rest
            (h2, if truthy pk then primaryKeyColumns @ [columnName] else primaryKeyColumns)))))"

text \<open>The second loop: one column definition for each key.\<close>

fun column_defs ::
  "deps \<Rightarrow> ColumnDefOptions \<Rightarrow> jsobj list \<Rightarrow> jsval \<Rightarrow> string list \<Rightarrow> js_exn + string list" where
  "column_defs D options h columnSpecs [] = Inr []"
| "column_defs D options h columnSpecs (columnName # rest) =
     (case get_prop h columnSpecs columnName of
        Inl e \<Rightarrow> Inl e
      | Inr v \<Rightarrow>
     (case read_spec h v of
        Inl e \<Rightarrow> Inl e
      | Inr columnSpec \<Rightarrow>
     (case pg_createColumnDef D columnName columnSpec options of
        Inl e \<Rightarrow> Inl e
      | Inr d \<Rightarrow>
     (case column_defs D options h columnSpecs rest of
        Inl e \<Rightarrow> Inl e
      | Inr ds \<Rightarrow> Inr (d # ds)))))"

text \<open>
  \<^verbatim>\<open>createTable\<close>, in two parts: \<open>createTable_sql\<close> is the function up to the
  statement \<^verbatim>\<open>sql\<close>, with the heap it leaves; \<open>pg_createTable\<close> hands the statement
  to \<^verbatim>\<open>runSql\<close>. (The call of \<^verbatim>\<open>log.verbose\<close> at the start is left out.) When \<^verbatim>\<open>options.columns\<close> is not \<^verbatim>\<open>undefined\<close>, the key is
  deleted from \<^verbatim>\<open>options\<close>, and \<^verbatim>\<open>tableOptions\<close> is \<^verbatim>\<open>options\<close>; otherwise
  \<^verbatim>\<open>columnSpecs\<close> is \<^verbatim>\<open>options\<close> itself and \<^verbatim>\<open>tableOptions\<close> is a fresh empty
  object, whose \<^verbatim>\<open>ifNotExists\<close> reads as \<^verbatim>\<open>undefined\<close>.
\<close>

definition createTable_sql ::
  "deps \<Rightarrow> string \<Rightarrow> jsval \<Rightarrow> jsobj list \<Rightarrow> js_exn + (string \<times> jsobj list)" where
  "createTable_sql D tableName options h =
     js_bind (get_prop h options ''columns'')
       (\<lambda>columns.
     js_bind (if columns \<noteq> JUndefined then delete_prop h options ''columns'' else Inr h)
       (\<lambda>h0.
     js_bind (if columns \<noteq> JUndefined then get_prop h0 options ''ifNotExists''
              else Inr JUndefined)
       (\<lambda>ifNotExists.
     (let columnSpecs = (if columns \<noteq> JUndefined then columns else options);
          ifNotExistsSql = (if truthy ifNotExists then ''IF NOT EXISTS'' else [])
      in
     js_bind (normalize_columns D columnSpecs (own_keys h0 columnSpecs) (h0, []))
       (\<lambda>(h1, primaryKeyColumns).
     (let pkSql = (if length primaryKeyColumns > 1
                   then util_format '', PRIMARY KEY (%s)''
                          [JStr (join_strings '', '' primaryKeyColumns)]
                   else []);
          columnDefOptions = \<lparr>emitPrimaryKey = JBool (\<not> length primaryKeyColumns > 1)\<rparr>
      in
     js_bind (column_defs D columnDefOptions h1 columnSpecs (own_keys h1 columnSpecs))
       (\<lambda>columnDefs.
          Inr (util_format (''CREATE TABLE %s '' @ dq @ ''%s'' @ dq @ '' (%s%s)'')
                 [JStr ifNotExistsSql, JStr tableName,
                  JStr (join_strings '', '' columnDefs), JStr pkSql], h1))))))))"

definition pg_createTable ::
  "deps \<Rightarrow> 'c query \<Rightarrow> string \<Rightarrow> jsval \<Rightarrow> 'c arg \<Rightarrow> 'c proc" where
  "pg_createTable D q tableName options callback w =
     js_bind (createTable_sql D tableName options (heap w))
       (\<lambda>(sql, h1). pg_runSql q sql [] callback (w\<lparr>heap := h1\<rparr>))"










section \<open>Concrete inputs\<close>

text \<open>
  A table of pairwise distinct type constants and a base type mapper, for the concrete
  inputs at which properties are evaluated.
\<close>

definition example_types :: data_type where
  "example_types = \<lparr>STRING = JStr ''string'', TEXT = JStr ''text'', INTEGER = JStr ''int'',
     DATE_TIME = JStr ''datetime'', BLOB = JStr ''blob'', BOOLEAN = JStr ''boolean''\<rparr>"

definition example_super :: "ColumnSpec \<Rightarrow> js_exn + string" where
  "example_super spec = Inr ''INTEGER''"

text \<open>A column specification with no field set.\<close>

definition empty_spec :: ColumnSpec where
  "empty_spec = \<lparr>type = JUndefined, length_f = JUndefined, unsigned = JUndefined,
     primaryKey = JUndefined, autoIncrement = JUndefined, notNull = JUndefined,
     unique = JUndefined, null_f = JUndefined, defaultValue = JUndefined\<rparr>"

text \<open>
  A backend that accepts every statement and returns no rows, and a world in which
  nothing has happened yet.
\<close>

definition accepting :: "unit query" where
  "accepting c sql params = ((JNull, PgResult (Some [])), c)"

definition world0 :: "unit world" where
  "world0 = \<lparr>conn = (), dryRun = False, dispatched = [], logged = [], calls = [], heap = []\<rparr>"

text \<open>
  A backend that reports an error for the first statement it receives and accepts every
  later one; its state is the number of statements received.
\<close>

definition failing_first :: "nat query" where
  "failing_first c sql params =
     (if c = 0 then ((JError ''boom'', NoResult), Suc c)
      else ((JNull, PgResult (Some [])), Suc c))"

definition world1 :: "nat world" where
  "world1 = \<lparr>conn = 0, dryRun = False, dispatched = [], logged = [], calls = [], heap = []\<rparr>"

text \<open>
  An instance of the modules that are not among the sources: a normalisation that
  returns an object as it is and allocates \<^verbatim>\<open>{type: s}\<close> for a string \<open>s\<close>, and a
  version comparison that always answers yes.
\<close>

definition example_normalize :: "jsobj list \<Rightarrow> jsval \<Rightarrow> js_exn + (jsval \<times> jsobj list)" where
  "example_normalize h v =
     (case v of
        JRef a \<Rightarrow> Inr (JRef a, h)
      | JStr s \<Rightarrow> Inr (alloc [(''type'', JStr s)] h)
      | _ \<Rightarrow> Inl (Thrown (JError ''Unable to normalize column spec'')))"

definition example_deps :: deps where
  "example_deps = \<lparr>types = example_types, base_mapDataType = example_super,
     normalizeColumnSpec = example_normalize, semver_gte = (\<lambda>a b. Inr True)\<rparr>"

text \<open>
  A caller's heap for \<^verbatim>\<open>createTable\<close>: at address 0 the options
  \<^verbatim>\<open>{columns: c, ifNotExists: false}\<close>, at address 1 the columns
  \<^verbatim>\<open>c = {id: s, name: 'string'}\<close>, at address 2 the specification
  \<^verbatim>\<open>s = {type: 'int', primaryKey: true}\<close>.
\<close>

definition world2 :: "unit world" where
  "world2 = \<lparr>conn = (), dryRun = False, dispatched = [], logged = [], calls = [],
     heap = [[(''columns'', JRef 1), (''ifNotExists'', JBool False)],
             [(''id'', JRef 2), (''name'', JStr ''string'')],
             [(''type'', JStr ''int''), (''primaryKey'', JBool True)]]\<rparr>"



section \<open>Verified properties\<close>

subsection \<open>Decimal numerals: printing and parsing agree\<close>

lemma digit_char_all: "\<forall>d\<in>set [0..<10]. is_digit (digit_char d) \<and> digit_val (digit_char d) = d"
  by code_simp

lemma digit_char_props: "d < 10 \<Longrightarrow> is_digit (digit_char d) \<and> digit_val (digit_char d) = d"
  using digit_char_all by simp

lemma parse_digits_show_nat:
  "parse_digits acc (show_nat n @ r) = parse_digits (acc * 10 ^ length (show_nat n) + n) r"
proof (induction n arbitrary: acc r rule: show_nat.induct)
  case (1 n)
  show ?case
  proof (cases "n < 10")
    case True
    then show ?thesis
      using digit_char_props [of n] by (simp add: show_nat.simps [of n] mult.commute)
  next
    case False
    have d: "is_digit (digit_char (n mod 10))" "digit_val (digit_char (n mod 10)) = n mod 10"
      using digit_char_props [of "n mod 10"] by simp_all
    have "parse_digits acc (show_nat n @ r)
        = parse_digits acc (show_nat (n div 10) @ (digit_char (n mod 10) # r))"
      using False by (simp add: show_nat.simps [of n])
    also have "\<dots> = parse_digits (acc * 10 ^ length (show_nat (n div 10)) + n div 10)
                       (digit_char (n mod 10) # r)"
      using False "1.IH" by simp
    also have "\<dots> = parse_digits (acc * 10 ^ length (show_nat n) + n) r"
      using False d by (simp add: show_nat.simps [of n] algebra_simps)
    finally show ?thesis .
  qed
qed

lemma show_nat_head: "\<exists>c cs. show_nat n = c # cs \<and> is_digit c"
proof (induction n rule: show_nat.induct)
  case (1 n)
  show ?case
  proof (cases "n < 10")
    case True
    then show ?thesis using digit_char_props [of n] by (simp add: show_nat.simps [of n])
  next
    case False
    then obtain c cs where "show_nat (n div 10) = c # cs" "is_digit c" using "1.IH" by blast
    then show ?thesis using False by (simp add: show_nat.simps [of n])
  qed
qed

lemma parse_unsigned_show_nat: "parse_unsigned (show_nat n) = Some n"
proof -
  obtain c cs where h: "show_nat n = c # cs" "is_digit c" using show_nat_head by blast
  have "parse_digits 0 (show_nat n @ []) = n"
    unfolding parse_digits_show_nat by simp
  then show ?thesis using h by (simp add: parse_unsigned_def)
qed

lemma is_digit_not_special: "is_digit c \<Longrightarrow> \<not> is_space c \<and> c \<noteq> CHR ''-'' \<and> c \<noteq> CHR ''+''"
  by (auto simp: is_digit_def is_space_def)

lemma parseInt_JNum: "parseInt (JNum n) = Some n"
proof (cases "n < 0")
  case True
  have "\<not> is_space CHR ''-''" by (simp add: is_space_def)
  then show ?thesis using True
    by (simp add: parseInt_def show_int_def parse_signed_def parse_unsigned_show_nat)
next
  case False
  obtain c cs where h: "show_nat (nat n) = c # cs" "is_digit c" using show_nat_head by blast
  have "parse_unsigned (c # cs) = Some (nat n)" using parse_unsigned_show_nat [of "nat n"] h by simp
  then show ?thesis using False h is_digit_not_special [of c]
    by (simp add: parseInt_def show_int_def parse_signed_def)
qed

lemma parseInt_JUndefined: "parseInt JUndefined = None"
  by (simp add: parseInt_def parse_signed_def parse_unsigned_def is_space_def is_digit_def)

lemma mysql_len_cases:
  "mysql_len spec =
     (case length_f spec of
        JUndefined \<Rightarrow> 1000
      | JNum n \<Rightarrow> if n = 0 then 1000 else n
      | v \<Rightarrow> (case parseInt v of None \<Rightarrow> 1000 | Some n \<Rightarrow> if n = 0 then 1000 else n))"
  by (simp add: mysql_len_def parseInt_JNum parseInt_JUndefined split: jsval.splits option.splits)

subsection \<open>C3: size tiers of the MySQL TEXT and BLOB types\<close>

text \<open>
  Claim C3, as amended. For a column specification of type TEXT or BLOB, the MySQL
  \<^verbatim>\<open>mapDataType\<close> chooses the storage class by the effective length \<open>L\<close>:
  \<open>L \<le> 256\<close> gives the tiny variant, \<open>256 < L \<le> 65536\<close> the base variant,
  \<open>65536 < L \<le> 16777216\<close> the medium variant, and a larger \<open>L\<close> the long variant.
  \<open>L\<close> is 1000 when \<^verbatim>\<open>length\<close> is absent, when \<^verbatim>\<open>parseInt\<close> finds no number in
  it, and also when the number is 0; otherwise \<open>L\<close> is that number. This is stated
  for a \<^verbatim>\<open>length\<close> that, if a number, is below \<open>10^21\<close> in magnitude and, if a
  string, consists of ASCII characters: beyond that JavaScript's \<^verbatim>\<open>parseInt\<close> reads
  another number than the one modelled here. (The type constants must be such that the
  \<^verbatim>\<open>switch\<close> reaches the BLOB case.)
\<close>

theorem mysql_mapDataType_size_tiers:
  assumes "type spec = TEXT T \<or> type spec = BLOB T"
    and "BLOB T \<noteq> TEXT T" and "BLOB T \<noteq> DATE_TIME T"
    and "parseInt_modelled (length_f spec)"
  shows "mysql_mapDataType T super spec =
           (let L = (case length_f spec of
                       JUndefined \<Rightarrow> 1000
                     | JNum n \<Rightarrow> if n = 0 then 1000 else n
                     | v \<Rightarrow> (case parseInt v of None \<Rightarrow> 1000 | Some n \<Rightarrow> if n = 0 then 1000 else n));
                base = (if type spec = TEXT T then ''TEXT'' else ''BLOB'')
            in Inr (if L \<le> 256 then ''TINY'' @ base
                    else if L \<le> 65536 then base
                    else if L \<le> 16777216 then ''MEDIUM'' @ base
                    else ''LONG'' @ base))"
proof -
  have "mysql_mapDataType T super spec =
          (let L = mysql_len spec; base = (if type spec = TEXT T then ''TEXT'' else ''BLOB'')
            in Inr (if L \<le> 256 then ''TINY'' @ base
                    else if L \<le> 65536 then base
                    else if L \<le> 16777216 then ''MEDIUM'' @ base
                    else ''LONG'' @ base))"
    using assms by (auto simp: mysql_mapDataType_def Let_def)
  then show ?thesis by (simp only: mysql_len_cases)
qed

theorem mysql_mapDataType_size_tiers_witness:
  "mysql_mapDataType example_types example_super
     (empty_spec\<lparr>type := BLOB example_types, length_f := JNum 5000000\<rparr>) = Inr ''MEDIUMBLOB''"
  using mysql_mapDataType_size_tiers [of "empty_spec\<lparr>type := BLOB example_types, length_f := JNum 5000000\<rparr>" example_types example_super]
  by (simp add: example_types_def empty_spec_def parseInt_modelled_def)

text \<open>
  Claim C3 as stated fails for a length that is present and numeric but zero (a value
  within the range modelled): the claimed effective length is 0, which is at most 256
  and would give TINYTEXT, while the code falls back to 1000 and answers TEXT.
\<close>

theorem mysql_mapDataType_zero_length_counterexample:
  "mysql_mapDataType example_types example_super
     (empty_spec\<lparr>type := TEXT example_types, length_f := JNum 0\<rparr>) = Inr ''TEXT''
   \<and> mysql_mapDataType example_types example_super
     (empty_spec\<lparr>type := TEXT example_types, length_f := JNum 0\<rparr>) \<noteq> Inr ''TINYTEXT''
   \<and> (0::int) \<le> 256"
  by (simp add: mysql_mapDataType_def mysql_len_def parseInt_JNum example_types_def empty_spec_def)

subsection \<open>C4: order of the constraint tokens\<close>

text \<open>
  Claim C4, as amended. The MySQL \<^verbatim>\<open>createColumnConstraint\<close> emits its tokens in
  the order UNSIGNED, PRIMARY KEY followed by AUTO_INCREMENT (both only when
  \<^verbatim>\<open>spec.primaryKey\<close> and \<^verbatim>\<open>options.emitPrimaryKey\<close> are truthy), NOT NULL,
  UNIQUE, NULL, DEFAULT with its value, each token present exactly when its field is
  truthy (stated for a default value that is absent or truthy). The PostgreSQL
  \<^verbatim>\<open>createColumnConstraint\<close> never emits UNSIGNED or NULL and puts the auto-increment
  marker SERIAL before PRIMARY KEY; its order is SERIAL, PRIMARY KEY, NOT NULL, UNIQUE,
  DEFAULT with its value, the default being present whenever it is not
  \<^verbatim>\<open>undefined\<close>. In both dialects a string default is wrapped in single quotes, any
  other default is pushed as it is, and the result is the tokens joined by one space.
\<close>

theorem createColumnConstraint_token_order:
  "(defaultValue spec = JUndefined \<or> truthy (defaultValue spec) \<longrightarrow>
      mysql_constraint_tokens spec options =
          (if truthy (unsigned spec) then [JStr ''UNSIGNED''] else [])
        @ (if truthy (primaryKey spec) \<and> truthy (emitPrimaryKey options)
           then JStr ''PRIMARY KEY''
                # (if truthy (autoIncrement spec) then [JStr ''AUTO_INCREMENT''] else [])
           else [])
        @ (if truthy (notNull spec) then [JStr ''NOT NULL''] else [])
        @ (if truthy (unique spec) then [JStr ''UNIQUE''] else [])
        @ (if truthy (null_f spec) then [JStr ''NULL''] else [])
        @ (if defaultValue spec = JUndefined then []
           else [JStr ''DEFAULT'',
                 case defaultValue spec of JStr s \<Rightarrow> JStr (sq @ s @ sq) | v \<Rightarrow> v]))
   \<and> pg_constraint_tokens spec options =
          (if truthy (primaryKey spec) \<and> truthy (emitPrimaryKey options)
           then (if truthy (autoIncrement spec) then [JStr ''SERIAL''] else [])
                @ [JStr ''PRIMARY KEY'']
           else [])
        @ (if truthy (notNull spec) then [JStr ''NOT NULL''] else [])
        @ (if truthy (unique spec) then [JStr ''UNIQUE''] else [])
        @ (if defaultValue spec = JUndefined then []
           else [JStr ''DEFAULT'',
                 case defaultValue spec of JStr s \<Rightarrow> JStr (sq @ s @ sq) | v \<Rightarrow> v])
   \<and> mysql_createColumnConstraint spec options = join '' '' (mysql_constraint_tokens spec options)
   \<and> pg_createColumnConstraint spec options = join '' '' (pg_constraint_tokens spec options)"
proof (intro conjI impI)
  assume "defaultValue spec = JUndefined \<or> truthy (defaultValue spec)"
  then show "mysql_constraint_tokens spec options =
          (if truthy (unsigned spec) then [JStr ''UNSIGNED''] else [])
        @ (if truthy (primaryKey spec) \<and> truthy (emitPrimaryKey options)
           then JStr ''PRIMARY KEY''
                # (if truthy (autoIncrement spec) then [JStr ''AUTO_INCREMENT''] else [])
           else [])
        @ (if truthy (notNull spec) then [JStr ''NOT NULL''] else [])
        @ (if truthy (unique spec) then [JStr ''UNIQUE''] else [])
        @ (if truthy (null_f spec) then [JStr ''NULL''] else [])
        @ (if defaultValue spec = JUndefined then []
           else [JStr ''DEFAULT'',
                 case defaultValue spec of JStr s \<Rightarrow> JStr (sq @ s @ sq) | v \<Rightarrow> v])"
    by (cases "defaultValue spec")
       (simp_all add: mysql_constraint_tokens_def run_if_def push_def Let_def)
next
  show "pg_constraint_tokens spec options =
          (if truthy (primaryKey spec) \<and> truthy (emitPrimaryKey options)
           then (if truthy (autoIncrement spec) then [JStr ''SERIAL''] else [])
                @ [JStr ''PRIMARY KEY'']
           else [])
        @ (if truthy (notNull spec) then [JStr ''NOT NULL''] else [])
        @ (if truthy (unique spec) then [JStr ''UNIQUE''] else [])
        @ (if defaultValue spec = JUndefined then []
           else [JStr ''DEFAULT'',
                 case defaultValue spec of JStr s \<Rightarrow> JStr (sq @ s @ sq) | v \<Rightarrow> v])"
    by (cases "defaultValue spec")
       (simp_all add: pg_constraint_tokens_def run_if_def push_def Let_def)
qed (simp_all add: mysql_createColumnConstraint_def pg_createColumnConstraint_def)

theorem createColumnConstraint_token_order_witness:
  "mysql_createColumnConstraint
     (empty_spec\<lparr>unsigned := JBool True, primaryKey := JBool True, autoIncrement := JBool True,
        notNull := JBool True, unique := JBool True, null_f := JBool True,
        defaultValue := JStr ''x''\<rparr>) \<lparr>emitPrimaryKey = JBool True\<rparr>
   = ''UNSIGNED PRIMARY KEY AUTO_INCREMENT NOT NULL UNIQUE NULL DEFAULT '' @ sq @ ''x'' @ sq"
  using createColumnConstraint_token_order [of
     "empty_spec\<lparr>unsigned := JBool True, primaryKey := JBool True, autoIncrement := JBool True,
        notNull := JBool True, unique := JBool True, null_f := JBool True,
        defaultValue := JStr ''x''\<rparr>" "\<lparr>emitPrimaryKey = JBool True\<rparr>"]
  by (simp add: empty_spec_def join_def sq_def)

text \<open>
  Claim C4 as stated fails in the PostgreSQL dialect: with \<^verbatim>\<open>unsigned\<close>,
  \<^verbatim>\<open>primaryKey\<close>, \<^verbatim>\<open>autoIncrement\<close> and \<^verbatim>\<open>null\<close> set and primary keys emitted,
  the tokens are SERIAL and then PRIMARY KEY: the auto-increment marker comes first, and
  neither UNSIGNED nor NULL appears.
\<close>

theorem pg_createColumnConstraint_serial_counterexample:
  "pg_constraint_tokens
     (empty_spec\<lparr>unsigned := JBool True, primaryKey := JBool True, autoIncrement := JBool True,
        null_f := JBool True\<rparr>) \<lparr>emitPrimaryKey = JBool True\<rparr>
   = [JStr ''SERIAL'', JStr ''PRIMARY KEY'']"
  by (simp add: pg_constraint_tokens_def run_if_def push_def empty_spec_def Let_def)

subsection \<open>C9: default values that are falsy\<close>

lemma show_int_0: "show_int 0 = ''0''"
  by (simp add: show_int_def show_nat.simps [of 0] digit_char_def)

text \<open>
  Claim C9 at the default values \<open>0\<close>, \<^verbatim>\<open>false\<close> and the empty string: the
  PostgreSQL \<^verbatim>\<open>createColumnConstraint\<close>, which tests
  \<^verbatim>\<open>typeof spec.defaultValue != 'undefined'\<close>, emits the DEFAULT clause; the MySQL
  one, which tests \<^verbatim>\<open>if (spec.defaultValue)\<close>, emits nothing.
\<close>

theorem mysql_createColumnConstraint_falsy_default:
  "mysql_createColumnConstraint (empty_spec\<lparr>defaultValue := JNum 0\<rparr>) \<lparr>emitPrimaryKey = JBool False\<rparr> = []
   \<and> mysql_createColumnConstraint (empty_spec\<lparr>defaultValue := JBool False\<rparr>) \<lparr>emitPrimaryKey = JBool False\<rparr> = []
   \<and> mysql_createColumnConstraint (empty_spec\<lparr>defaultValue := JStr []\<rparr>) \<lparr>emitPrimaryKey = JBool False\<rparr> = []
   \<and> pg_createColumnConstraint (empty_spec\<lparr>defaultValue := JNum 0\<rparr>) \<lparr>emitPrimaryKey = JBool False\<rparr> = ''DEFAULT 0''
   \<and> pg_createColumnConstraint (empty_spec\<lparr>defaultValue := JBool False\<rparr>) \<lparr>emitPrimaryKey = JBool False\<rparr> = ''DEFAULT false''
   \<and> pg_createColumnConstraint (empty_spec\<lparr>defaultValue := JStr []\<rparr>) \<lparr>emitPrimaryKey = JBool False\<rparr> = ''DEFAULT '' @ sq @ sq"
  by (simp add: mysql_createColumnConstraint_def mysql_constraint_tokens_def
        pg_createColumnConstraint_def pg_constraint_tokens_def run_if_def push_def Let_def
        empty_spec_def join_def show_int_0)

subsection \<open>C5: numbered placeholders of the PostgreSQL driver\<close>

lemma split_not_Nil: "split sep s \<noteq> []"
  by (induction s) (auto split: list.splits)

lemma concat_number_pieces_Cons:
  "concat (number_pieces i ((c # p) # ps)) = c # concat (number_pieces i (p # ps))"
  by (cases ps) simp_all

lemma concat_number_pieces_split:
  "concat (number_pieces i (split CHR ''?'' s)) = spec_placeholders (Suc i) s"
proof (induction s arbitrary: i)
  case Nil
  show ?case by simp
next
  case (Cons c cs)
  obtain p ps where sp: "split CHR ''?'' cs = p # ps"
    using split_not_Nil [of "CHR ''?''" cs] by (cases "split CHR ''?'' cs") auto
  show ?case
  proof (cases "c = CHR ''?''")
    case True
    have "concat (number_pieces i (split CHR ''?'' (c # cs)))
        = CHR ''$'' # show_nat (Suc i) @ concat (number_pieces (Suc i) (split CHR ''?'' cs))"
      using True sp by simp
    then show ?thesis using True Cons.IH [of "Suc i"] by simp
  next
    case False
    have "concat (number_pieces i (split CHR ''?'' (c # cs)))
        = c # concat (number_pieces i (split CHR ''?'' cs))"
      using False sp by (simp add: concat_number_pieces_Cons)
    then show ?thesis using False Cons.IH [of i] by simp
  qed
qed

lemma number_placeholders_spec: "number_placeholders sql = spec_placeholders 1 sql"
  by (simp add: number_placeholders_def concat_number_pieces_split)

lemma show_nat_no_bracket: "\<forall>c\<in>set (show_nat n). is_digit c"
proof (induction n rule: show_nat.induct)
  case (1 n)
  show ?case
  proof (cases "n < 10")
    case True
    then show ?thesis using digit_char_props [of n] by (simp add: show_nat.simps [of n])
  next
    case False
    then show ?thesis using "1.IH" digit_char_props [of "n mod 10"]
      by (simp add: show_nat.simps [of n])
  qed
qed

lemma is_digit_not_bracket: "is_digit c \<Longrightarrow> \<not> is_bracket c"
  by (auto simp: is_digit_def is_bracket_def)

lemma spec_placeholders_no_bracket:
  "\<forall>c\<in>set s. \<not> is_bracket c \<Longrightarrow> \<forall>c\<in>set (spec_placeholders k s). \<not> is_bracket c"
proof (induction s arbitrary: k)
  case Nil
  show ?case by simp
next
  case (Cons a s)
  have "\<not> is_bracket CHR ''$''" by (simp add: is_bracket_def)
  then show ?case using Cons show_nat_no_bracket is_digit_not_bracket by auto
qed

lemma brackets_to_quotes_id: "\<forall>c\<in>set s. \<not> is_bracket c \<Longrightarrow> brackets_to_quotes s = s"
  by (induction s) (auto simp: brackets_to_quotes_def)

text \<open>
  Claim C5, as amended. When the PostgreSQL \<^verbatim>\<open>runSql\<close> is called with at least one
  parameter, the statement it logs and hands to the connection is the template in which
  the \<open>k\<close>-th \<^verbatim>\<open>?\<close> from the left has become \<^verbatim>\<open>$k\<close> and, besides, every
  \<^verbatim>\<open>[\<close> and \<^verbatim>\<open>]\<close> has become a double quote; with no parameter the \<^verbatim>\<open>?\<close>
  markers stay and only the brackets are replaced. For a template without brackets the
  rest of the template is unchanged.
\<close>

theorem pg_runSql_placeholders:
  "pg_runSql q sql params callback w =
     (let sql' = map (\<lambda>c. if c = CHR ''['' \<or> c = CHR '']'' then CHR 0x22 else c)
                   (if params \<noteq> [] then spec_placeholders 1 sql else sql);
          w' = w\<lparr>logged := logged w @ [(sql', params)]\<rparr>
      in if dryRun w then invoke callback JUndefined NoResult w'
         else dispatch q sql' params callback w')
   \<and> ((\<forall>c\<in>set sql. c \<noteq> CHR ''['' \<and> c \<noteq> CHR '']'') \<longrightarrow>
        pg_statement sql (length params) = (if params \<noteq> [] then spec_placeholders 1 sql else sql))"
proof
  show "pg_runSql q sql params callback w =
     (let sql' = map (\<lambda>c. if c = CHR ''['' \<or> c = CHR '']'' then CHR 0x22 else c)
                   (if params \<noteq> [] then spec_placeholders 1 sql else sql);
          w' = w\<lparr>logged := logged w @ [(sql', params)]\<rparr>
      in if dryRun w then invoke callback JUndefined NoResult w'
         else dispatch q sql' params callback w')"
    by (simp add: pg_runSql_def pg_statement_def number_placeholders_spec log_sql_def
          brackets_to_quotes_def is_bracket_def Let_def)
next
  show "(\<forall>c\<in>set sql. c \<noteq> CHR ''['' \<and> c \<noteq> CHR '']'') \<longrightarrow>
        pg_statement sql (length params) = (if params \<noteq> [] then spec_placeholders 1 sql else sql)"
  proof
    assume "\<forall>c\<in>set sql. c \<noteq> CHR ''['' \<and> c \<noteq> CHR '']''"
    then have nb: "\<forall>c\<in>set sql. \<not> is_bracket c" by (simp add: is_bracket_def)
    show "pg_statement sql (length params) = (if params \<noteq> [] then spec_placeholders 1 sql else sql)"
      using nb spec_placeholders_no_bracket [OF nb, of 1]
      by (simp add: pg_statement_def number_placeholders_spec brackets_to_quotes_id)
  qed
qed

lemma show_nat_1: "show_nat (Suc 0) = ''1''"
  by (simp add: show_nat.simps [of "Suc 0"] digit_char_def)

lemma show_nat_2: "show_nat (Suc (Suc 0)) = ''2''"
  by (simp add: show_nat.simps [of "Suc (Suc 0)"] digit_char_def)

theorem pg_runSql_placeholders_witness:
  "pg_statement ''a=? AND b=?'' (length [PVal (JNum 1), PVal (JNum 2)]) = ''a=$1 AND b=$2''"
  using pg_runSql_placeholders [of accepting "''a=? AND b=?''" "[PVal (JNum 1), PVal (JNum 2)]" "Fn notify" world0]
  by (simp add: show_nat_1 show_nat_2)

text \<open>
  Claim C5 as stated fails for a template with brackets: the rest of the template does
  not stay unchanged, the brackets around \<open>a\<close> reach the connection as double quotes.
\<close>

theorem pg_runSql_brackets_counterexample:
  "pg_runSql accepting ''[a]=?'' [PVal (JNum 7)] (Fn notify) world0
     = Inr (world0\<lparr>dispatched := [([CHR 0x22] @ ''a'' @ [CHR 0x22] @ ''=$1'', [PVal (JNum 7)])],
                    logged := [([CHR 0x22] @ ''a'' @ [CHR 0x22] @ ''=$1'', [PVal (JNum 7)])],
                    calls := [(JNull, PgResult (Some []))]\<rparr>)"
  by (simp add: pg_runSql_def pg_statement_def number_placeholders_spec log_sql_def
        brackets_to_quotes_def is_bracket_def Let_def world0_def dispatch_def accepting_def
        notify_def show_nat_1)

subsection \<open>C6: quotes in the string values of insert\<close>

text \<open>
  Claim C6 at a value with two single quotes, \<^verbatim>\<open>a'b'c\<close>: \<^verbatim>\<open>insert\<close> doubles the
  first quote only, so the literal that reaches the connection is \<^verbatim>\<open>'a''b'c'\<close>,
  with three quotes between the delimiters and not four.
\<close>

theorem pg_insert_second_quote_not_doubled:
  "insert_value (JStr (''a'' @ sq @ ''b'' @ sq @ ''c'')) = sq @ ''a'' @ sq @ sq @ ''b'' @ sq @ ''c'' @ sq
   \<and> pg_insert accepting ''t'' [JStr ''k''] [JStr (''a'' @ sq @ ''b'' @ sq @ ''c'')] (Fn notify) world0
     = Inr (world0\<lparr>
         dispatched := [(''INSERT INTO '' @ dq @ ''t'' @ dq @ '' ('' @ dq @ ''k'' @ dq @ '') VALUES (''
                          @ sq @ ''a'' @ sq @ sq @ ''b'' @ sq @ ''c'' @ sq @ '');'', [])],
         logged := [(''INSERT INTO '' @ dq @ ''t'' @ dq @ '' ('' @ dq @ ''k'' @ dq @ '') VALUES (''
                          @ sq @ ''a'' @ sq @ sq @ ''b'' @ sq @ ''c'' @ sq @ '');'', [])],
         calls := [(JNull, PgResult (Some []))]\<rparr>)"
  by (simp add: pg_insert_def insert_sql_def insert_value_def sq_def dq_def
        pg_runSql_def pg_statement_def log_sql_def brackets_to_quotes_def is_bracket_def
        Let_def world0_def dispatch_def accepting_def notify_def)

subsection \<open>C1: the three steps of the PostgreSQL changeColumn\<close>

text \<open>
  Claim C1 on a connection that reports an error for the first statement, with
  \<^verbatim>\<open>notNull\<close> and \<^verbatim>\<open>unique\<close> both \<^verbatim>\<open>true\<close>: the callback is invoked with the
  error of the first step, and yet the second and third statements reach the connection
  and the callback is invoked a second time, with the result of the third statement.
\<close>

theorem pg_changeColumn_continues_after_error:
  "pg_changeColumn failing_first ''t'' ''c''
     (empty_spec\<lparr>notNull := JBool True, unique := JBool True\<rparr>) (Fn notify) world1
   = Inr (world1\<lparr>
       conn := 3,
       dispatched :=
         [(''ALTER TABLE '' @ dq @ ''t'' @ dq @ '' ALTER COLUMN '' @ dq @ ''c'' @ dq @ '' SET NOT NULL'', []),
          (''ALTER TABLE '' @ dq @ ''t'' @ dq @ '' ADD CONSTRAINT t_c_unique UNIQUE ('' @ dq @ ''c'' @ dq @ '')'', []),
          (''ALTER TABLE '' @ dq @ ''t'' @ dq @ '' ALTER COLUMN '' @ dq @ ''c'' @ dq @ '' DROP DEFAULT'', [])],
       logged :=
         [(''ALTER TABLE '' @ dq @ ''t'' @ dq @ '' ALTER COLUMN '' @ dq @ ''c'' @ dq @ '' SET NOT NULL'', []),
          (''ALTER TABLE '' @ dq @ ''t'' @ dq @ '' ADD CONSTRAINT t_c_unique UNIQUE ('' @ dq @ ''c'' @ dq @ '')'', []),
          (''ALTER TABLE '' @ dq @ ''t'' @ dq @ '' ALTER COLUMN '' @ dq @ ''c'' @ dq @ '' DROP DEFAULT'', [])],
       calls := [(JError ''boom'', NoResult), (JNull, PgResult (Some []))]\<rparr>)"
  by (simp add: pg_changeColumn_def setNotNull_def setUnique_def setDefaultValue_def
        pg_runSql_def pg_statement_def log_sql_def brackets_to_quotes_def is_bracket_def
        dispatch_def invoke_def notify_def js_bind_def failing_first_def world1_def
        empty_spec_def sq_def dq_def Let_def)

subsection \<open>C2: dry run\<close>

text \<open>
  Claim C2, as amended. When \<^verbatim>\<open>global.dryRun\<close> is set, \<^verbatim>\<open>runSql\<close> of either
  driver logs the statement, hands nothing to the connection and invokes the callback it
  was given with no argument, that is, without an error; with a callback that only
  records its arguments the world changes in nothing but the log and that record.
  \<^verbatim>\<open>all\<close> does not consult the flag: in either driver, and whatever the flag, it hands
  its statement to the connection and passes the connection's answer on.
\<close>

theorem runSql_dry_run:
  "(dryRun w \<longrightarrow>
      pg_runSql q sql params callback w
        = invoke callback JUndefined NoResult
            (w\<lparr>logged := logged w @ [(pg_statement sql (length params), params)]\<rparr>)
    \<and> mysql_runSql q sql params callback w
        = invoke callback JUndefined NoResult
            (w\<lparr>logged := logged w @ [(strip_brackets sql, params)]\<rparr>)
    \<and> pg_runSql q sql params (Fn notify) w
        = Inr (w\<lparr>logged := logged w @ [(pg_statement sql (length params), params)],
                 calls := calls w @ [(JUndefined, NoResult)]\<rparr>)
    \<and> mysql_runSql q sql params (Fn notify) w
        = Inr (w\<lparr>logged := logged w @ [(strip_brackets sql, params)],
                 calls := calls w @ [(JUndefined, NoResult)]\<rparr>))
   \<and> mysql_all q sql params (Fn notify) w
        = (case q (conn w) (strip_brackets sql) params of
             ((err, result), c') \<Rightarrow>
               Inr (w\<lparr>conn := c',
                       dispatched := dispatched w @ [(strip_brackets sql, params)],
                       calls := calls w @ [(err, result)]\<rparr>))
   \<and> pg_all q sql (Fn notify) w
        = (case q (conn w) (brackets_to_quotes sql) [] of
             ((err, result), c') \<Rightarrow>
               (case result of
                  NoResult \<Rightarrow> Inl (TypeError ''Cannot read property rows of undefined'')
                | PgResult rows \<Rightarrow>
                    Inr (w\<lparr>conn := c',
                            dispatched := dispatched w @ [(brackets_to_quotes sql, [])],
                            calls := calls w @ [(err, rows_value rows)]\<rparr>)
                | RowArray rs \<Rightarrow>
                    Inr (w\<lparr>conn := c',
                            dispatched := dispatched w @ [(brackets_to_quotes sql, [])],
                            calls := calls w @ [(err, NoResult)]\<rparr>)))"
  by (simp add: pg_runSql_def mysql_runSql_def mysql_all_def pg_all_def log_sql_def
        dispatch_def invoke_def notify_def js_bind_def result_rows_def rows_value_def Let_def
        split: prod.splits qresult.splits)

theorem runSql_dry_run_witness:
  "pg_runSql accepting ''select 1'' [] (Fn notify) (world0\<lparr>dryRun := True\<rparr>)
     = Inr (world0\<lparr>dryRun := True, logged := [(''select 1'', [])],
                    calls := [(JUndefined, NoResult)]\<rparr>)"
  using runSql_dry_run [of "world0\<lparr>dryRun := True\<rparr>" accepting "''select 1''" "[]" "Fn notify"]
  by (simp add: world0_def pg_statement_def brackets_to_quotes_def is_bracket_def
        invoke_def notify_def)

text \<open>
  Claim C2 as stated fails for the row-fetching variant: with the dry-run flag set,
  \<^verbatim>\<open>all\<close> of either driver still hands its statement to the connection.
\<close>

theorem all_ignores_dry_run_counterexample:
  "pg_all accepting ''select 1'' (Fn notify) (world0\<lparr>dryRun := True\<rparr>)
     = Inr (world0\<lparr>dryRun := True, dispatched := [(''select 1'', [])],
                    calls := [(JNull, RowArray [])]\<rparr>)
   \<and> mysql_all accepting ''select 1'' [] (Fn notify) (world0\<lparr>dryRun := True\<rparr>)
     = Inr (world0\<lparr>dryRun := True, dispatched := [(''select 1'', [])],
                    calls := [(JNull, PgResult (Some []))]\<rparr>)"
  by (simp add: pg_all_def mysql_all_def dispatch_def invoke_def notify_def js_bind_def
        result_rows_def rows_value_def accepting_def world0_def brackets_to_quotes_def
        strip_brackets_def is_bracket_def)

subsection \<open>C8: the MySQL removeIndex without a table name\<close>

text \<open>
  Claim C8. Called with two arguments of which the second is a function, the MySQL
  \<^verbatim>\<open>removeIndex\<close> returns without throwing and leaves the world as it was: nothing is
  logged, nothing reaches the connection, the callback has not been invoked. It has
  scheduled one function for a later tick, the call of that second argument with an
  \<^verbatim>\<open>Error\<close> whose message names \<^verbatim>\<open>"tableName"\<close> and \<^verbatim>\<open>"indexName"\<close>; run on a
  later tick with a callback that records its arguments, it invokes the callback once,
  with that error.
\<close>

theorem mysql_removeIndex_missing_table:
  "mysql_removeIndex q [a, Fn f] w
     = Inr (w, [f (JError (''Illegal arguments, must provide '' @ dq @ ''tableName'' @ dq
                             @ '' and '' @ dq @ ''indexName'' @ dq)) NoResult])
   \<and> run_deferred [notify (JError (''Illegal arguments, must provide '' @ dq @ ''tableName'' @ dq
                             @ '' and '' @ dq @ ''indexName'' @ dq)) NoResult] w
     = Inr (w\<lparr>calls := calls w @
              [(JError (''Illegal arguments, must provide '' @ dq @ ''tableName'' @ dq
                             @ '' and '' @ dq @ ''indexName'' @ dq), NoResult)]\<rparr>)"
  by (simp add: mysql_removeIndex_def nth_arg_def is_function_def invoke_def notify_def
        js_bind_def Let_def fun_eq_iff)

subsection \<open>C10: createTable changes the caller's options\<close>

lemma pg_runSql_notify_heap:
  "pg_runSql q sql params (Fn notify) w = Inr w' \<Longrightarrow> heap w' = heap w"
  by (auto simp: pg_runSql_def log_sql_def dispatch_def invoke_def notify_def Let_def
      split: if_splits prod.splits)

lemma update_existing_keys:
  "k \<in> fst ` set al \<Longrightarrow> map fst (AList.update k v al) = map fst al"
  by (induction al) auto

lemma map_of_update_other:
  "k' \<noteq> k \<Longrightarrow> map_of (AList.update k v al) k' = map_of al k'"
  by (simp add: update_conv')

text \<open>
  The first loop of \<^verbatim>\<open>createTable\<close> over the keys of the object at address \<open>b\<close>,
  when normalisation leaves the objects that exist alone: no other object changes, the
  object keeps its keys, and each key visited ends up with a normal form of the value it
  had.
\<close>

lemma normalize_columns_frame:
  assumes frame0: "\<forall>h v v' h'. normalizeColumnSpec D h v = Inr (v', h') \<longrightarrow>
                    length h \<le> length h' \<and> (\<forall>i<length h. h' ! i = h ! i)"
  shows "normalize_columns D (JRef b) ks (h, pks) = Inr (h', pks') \<Longrightarrow>
         b < length h \<Longrightarrow> set ks \<subseteq> fst ` set (h ! b) \<Longrightarrow> distinct ks \<Longrightarrow>
           length h \<le> length h'
         \<and> (\<forall>i<length h. i \<noteq> b \<longrightarrow> h' ! i = h ! i)
         \<and> map fst (h' ! b) = map fst (h ! b)
         \<and> (\<forall>k. k \<notin> set ks \<longrightarrow> map_of (h' ! b) k = map_of (h ! b) k)
         \<and> (\<forall>k\<in>set ks. \<exists>h1 h2. normalizeColumnSpec D h1 (obj_get (h ! b) k)
                                      = Inr (obj_get (h' ! b) k, h2))"
proof (induction ks arbitrary: h pks)
  case Nil
  then show ?case by simp
next
  case (Cons k ks)
  have frame: "\<And>h v v' h'. normalizeColumnSpec D h v = Inr (v', h') \<Longrightarrow>
                    length h \<le> length h' \<and> (\<forall>i<length h. h' ! i = h ! i)"
    using frame0 by blast
  let ?v = "obj_get (h ! b) k"
  from Cons.prems(2) have gp: "get_prop h (JRef b) k = Inr ?v"
    by (simp add: get_prop_def)
  from Cons.prems(1) gp obtain cs h1 where n: "normalizeColumnSpec D h ?v = Inr (cs, h1)"
    by (auto split: sum.splits)
  from frame [OF n] have f1: "length h \<le> length h1" "\<forall>i<length h. h1 ! i = h ! i" by auto
  have b1: "b < length h1" using f1 Cons.prems(2) by simp
  let ?h2 = "h1[b := AList.update k cs (h1 ! b)]"
  have sp: "set_prop h1 (JRef b) k cs = Inr ?h2" using b1 by (simp add: set_prop_def)
  from Cons.prems(1) gp n sp obtain pk where
    rec: "normalize_columns D (JRef b) ks
            (?h2, if truthy pk then pks @ [k] else pks) = Inr (h', pks')"
    by (auto split: sum.splits)
  have hb: "h1 ! b = h ! b" using f1 Cons.prems(2) by simp
  have kin: "k \<in> fst ` set (h ! b)" using Cons.prems(3) by simp
  have h2b: "?h2 ! b = AList.update k cs (h ! b)" using b1 hb by simp
  have keys2: "map fst (?h2 ! b) = map fst (h ! b)"
    using h2b kin by (simp add: update_existing_keys)
  have sub2: "set ks \<subseteq> fst ` set (?h2 ! b)"
    using Cons.prems(3) keys2 by (metis list.set_map set_subset_Cons subset_trans)
  have "b < length ?h2" using b1 by simp
  from Cons.IH [OF rec this sub2] Cons.prems(4)
  have ih: "length ?h2 \<le> length h'"
      "\<forall>i<length ?h2. i \<noteq> b \<longrightarrow> h' ! i = ?h2 ! i"
      "map fst (h' ! b) = map fst (?h2 ! b)"
      "\<forall>k'. k' \<notin> set ks \<longrightarrow> map_of (h' ! b) k' = map_of (?h2 ! b) k'"
      "\<forall>k'\<in>set ks. \<exists>ha hb'. normalizeColumnSpec D ha (obj_get (?h2 ! b) k')
                                      = Inr (obj_get (h' ! b) k', hb')"
    by simp_all
  have c1: "length h \<le> length h'" using ih(1) f1(1) by simp
  have c2: "\<forall>i<length h. i \<noteq> b \<longrightarrow> h' ! i = h ! i"
    using ih(2) f1 by simp
  have c3: "map fst (h' ! b) = map fst (h ! b)" using ih(3) keys2 by simp
  have c4: "\<forall>k'. k' \<notin> set (k # ks) \<longrightarrow> map_of (h' ! b) k' = map_of (h ! b) k'"
    using ih(4) h2b by (simp add: map_of_update_other)
  have knot: "k \<notin> set ks" using Cons.prems(4) by simp
  have "map_of (h' ! b) k = Some cs"
    using ih(4) knot h2b by (simp add: update_conv')
  then have newk: "obj_get (h' ! b) k = cs" by (simp add: obj_get_def)
  have c5: "\<forall>k'\<in>set (k # ks). \<exists>ha hb'. normalizeColumnSpec D ha (obj_get (h ! b) k')
                                      = Inr (obj_get (h' ! b) k', hb')"
  proof
    fix k' assume k': "k' \<in> set (k # ks)"
    show "\<exists>ha hb'. normalizeColumnSpec D ha (obj_get (h ! b) k') = Inr (obj_get (h' ! b) k', hb')"
    proof (cases "k' = k")
      case True
      then show ?thesis using n newk by blast
    next
      case False
      then have "k' \<in> set ks" using k' by simp
      moreover have "obj_get (?h2 ! b) k' = obj_get (h ! b) k'"
        using False h2b by (simp add: obj_get_def map_of_update_other)
      ultimately show ?thesis using ih(5) by metis
    qed
  qed
  show ?case using c1 c2 c3 c4 c5 by blast
qed

text \<open>
  Claim C10. Let \<^verbatim>\<open>options\<close> be an object whose \<^verbatim>\<open>columns\<close> is another object,
  the columns mapping, and let \<^verbatim>\<open>normalizeColumnSpec\<close> leave existing objects
  unchanged. When the PostgreSQL \<^verbatim>\<open>createTable\<close> returns, the \<^verbatim>\<open>options\<close> object
  is the one passed in without its key \<^verbatim>\<open>columns\<close>, hence no longer equal to what
  was passed in, and the columns mapping has its keys as before, each now holding a
  normal form of the column specification that was there.
\<close>

theorem pg_createTable_mutates_options:
  assumes frame: "\<forall>h v v' h'. normalizeColumnSpec D h v = Inr (v', h') \<longrightarrow>
                    length h \<le> length h' \<and> (\<forall>i<length h. h' ! i = h ! i)"
    and a: "a < length (heap w)" and b: "b < length (heap w)" and ab: "a \<noteq> b"
    and cols: "obj_get (heap w ! a) ''columns'' = JRef b"
    and dist: "distinct (map fst (heap w ! b))"
    and run: "pg_createTable D q tableName (JRef a) (Fn notify) w = Inr w'"
  shows "heap w' ! a = AList.delete ''columns'' (heap w ! a)
       \<and> obj_get (heap w' ! a) ''columns'' = JUndefined
       \<and> heap w' ! a \<noteq> heap w ! a
       \<and> map fst (heap w' ! b) = map fst (heap w ! b)
       \<and> (\<forall>k\<in>set (map fst (heap w ! b)).
            \<exists>h1 h2. normalizeColumnSpec D h1 (obj_get (heap w ! b) k)
                       = Inr (obj_get (heap w' ! b) k, h2))"
proof -
  let ?h0 = "(heap w)[a := AList.delete ''columns'' (heap w ! a)]"
  have gp: "get_prop (heap w) (JRef a) ''columns'' = Inr (JRef b)"
    using a cols by (simp add: get_prop_def)
  have dp: "delete_prop (heap w) (JRef a) ''columns'' = Inr ?h0"
    using a by (simp add: delete_prop_def)
  have keys0: "own_keys ?h0 (JRef b) = map fst (heap w ! b)"
    using b ab by (simp add: own_keys_def)
  from run gp dp obtain h1 pks where
    loop: "normalize_columns D (JRef b) (map fst (heap w ! b)) (?h0, []) = Inr (h1, pks)"
    and fin: "\<exists>sql. pg_runSql q sql [] (Fn notify) (w\<lparr>heap := h1\<rparr>) = Inr w'"
    by (auto simp: pg_createTable_def createTable_sql_def js_bind_def keys0 Let_def
        simp del: util_format.simps split: sum.splits) blast
  from fin have hw': "heap w' = h1" using pg_runSql_notify_heap by fastforce
  have b0: "b < length ?h0" using b by simp
  have h0b: "?h0 ! b = heap w ! b" using ab by simp
  have sub: "set (map fst (heap w ! b)) \<subseteq> fst ` set (?h0 ! b)" using h0b by simp
  from normalize_columns_frame [OF frame loop b0 sub dist]
  have res: "\<forall>i<length ?h0. i \<noteq> b \<longrightarrow> h1 ! i = ?h0 ! i"
      "map fst (h1 ! b) = map fst (?h0 ! b)"
      "\<forall>k\<in>set (map fst (heap w ! b)). \<exists>ha hb. normalizeColumnSpec D ha (obj_get (?h0 ! b) k)
                                      = Inr (obj_get (h1 ! b) k, hb)"
    by blast+
  have c1: "heap w' ! a = AList.delete ''columns'' (heap w ! a)"
    using res(1) a ab hw' by simp
  have c2: "obj_get (heap w' ! a) ''columns'' = JUndefined"
    using c1 by (simp add: obj_get_def delete_conv')
  have c3: "heap w' ! a \<noteq> heap w ! a" using c2 cols by auto
  have c4: "map fst (heap w' ! b) = map fst (heap w ! b)" using res(2) h0b hw' by simp
  have c5: "\<forall>k\<in>set (map fst (heap w ! b)).
            \<exists>h1 h2. normalizeColumnSpec D h1 (obj_get (heap w ! b) k)
                       = Inr (obj_get (heap w' ! b) k, h2)"
    using res(3) h0b hw' by simp
  show ?thesis using c1 c2 c3 c4 c5 by blast
qed

lemma example_normalize_frame:
  "\<forall>h v v' h'. example_normalize h v = Inr (v', h') \<longrightarrow>
      length h \<le> length h' \<and> (\<forall>i<length h. h' ! i = h ! i)"
  by (auto simp: example_normalize_def alloc_def nth_append split: jsval.splits)

lemma world2_createTable:
  "pg_createTable example_deps accepting ''t'' (JRef 0) (Fn notify) world2
     = Inr (world2\<lparr>
         dispatched := [(''CREATE TABLE  '' @ dq @ ''t'' @ dq @ '' ('' @ dq @ ''id'' @ dq
                           @ '' INTEGER  PRIMARY KEY, '' @ dq @ ''name'' @ dq @ '' VARCHAR  )'', [])],
         logged := [(''CREATE TABLE  '' @ dq @ ''t'' @ dq @ '' ('' @ dq @ ''id'' @ dq
                           @ '' INTEGER  PRIMARY KEY, '' @ dq @ ''name'' @ dq @ '' VARCHAR  )'', [])],
         calls := [(JNull, PgResult (Some []))],
         heap := [[(''ifNotExists'', JBool False)],
                  [(''id'', JRef 2), (''name'', JRef 3)],
                  [(''type'', JStr ''int''), (''primaryKey'', JBool True)],
                  [(''type'', JStr ''string'')]]\<rparr>)"
  by code_simp

theorem pg_createTable_mutates_options_witness:
  "\<exists>w'. pg_createTable example_deps accepting ''t'' (JRef 0) (Fn notify) world2 = Inr w'
        \<and> heap world2 ! 0 = [(''columns'', JRef 1), (''ifNotExists'', JBool False)]
        \<and> heap w' ! 0 = [(''ifNotExists'', JBool False)]
        \<and> heap world2 ! 1 = [(''id'', JRef 2), (''name'', JStr ''string'')]
        \<and> map fst (heap w' ! 1) = [''id'', ''name'']"
proof -
  have nf: "\<forall>h v v' h'. normalizeColumnSpec example_deps h v = Inr (v', h') \<longrightarrow>
      length h \<le> length h' \<and> (\<forall>i<length h. h' ! i = h ! i)"
    using example_normalize_frame by (simp add: example_deps_def)
  have "(0::nat) < length (heap world2)" "(1::nat) < length (heap world2)" "(0::nat) \<noteq> 1"
       "obj_get (heap world2 ! 0) ''columns'' = JRef 1" "distinct (map fst (heap world2 ! 1))"
    by (simp_all add: world2_def obj_get_def)
  from pg_createTable_mutates_options [OF nf this world2_createTable]
  show ?thesis using world2_createTable by (simp add: world2_def)
qed

subsection \<open>C7: createMigrationsTable is idempotent\<close>















end
